theory Spec2Isabelle
  imports Main
begin

section \<open>JavaScript values\<close>

text \<open>
  The values the library handles as \<open>any\<close>: bound parameters, primary keys, the
  elements \<open>insertAndGet\<close> resolves to, and the columns of a row. A plain object is the
  list of its own enumerable properties in insertion order, which is the order
  \<open>Object.entries\<close> and \<open>Object.assign\<close> walk when no key is an array index, as is the
  case of column names. Numbers are the integers, the ids a driver hands back. Query fragments are kept out of this type: where the source tests
  \<open>instanceof\<close>, the argument datatypes below carry the answer.
\<close>

datatype jsval =
    Undefined
  | Null
  | Bool bool
  | Num int
  | Str string
  | Obj "(string \<times> jsval) list"

type_synonym props = "(string \<times> jsval) list"

definition digit_char :: "nat \<Rightarrow> char" where
  "digit_char d = ''0123456789'' ! d"

function decimal :: "nat \<Rightarrow> string" where
  "decimal n = (if n < 10 then [digit_char n] else decimal (n div 10) @ [digit_char (n mod 10)])"
  by pat_completeness auto
termination
  by (relation "measure (\<lambda>n. n)") auto

declare decimal.simps [simp del]

text \<open>\<open>String(v)\<close>, which a template literal and \<open>+=\<close> on a string apply to a value.\<close>

fun ToString :: "jsval \<Rightarrow> string" where
  "ToString Undefined = ''undefined''"
| "ToString Null = ''null''"
| "ToString (Bool b) = (if b then ''true'' else ''false'')"
| "ToString (Num n) = (if n < 0 then ''-'' @ decimal (nat (- n)) else decimal (nat n))"
| "ToString (Str s) = s"
| "ToString (Obj ps) = ''[object Object]''"

section \<open>Query.ts\<close>

text \<open>
  Modelled from the spec: the class \<open>QueryParam\<close> (file QueryParam, imported by
  Query.ts), a parameter value; Query.ts builds it with \<open>new QueryParam(v)\<close> and reads
  its field \<open>param\<close>.
\<close>

datatype QueryParam = QueryParam (param: jsval)

text \<open>
  \<open>type QueryPart = string|QueryParam|Query\<close>; a \<open>Query\<close> has the one field
  \<open>parts\<close>.
\<close>

datatype QueryPart =
    PString string
  | PParam QueryParam
  | PQuery Query
and Query = Query (parts: "QueryPart list")

text \<open>
  Modelled from the spec: the class \<open>CompiledQuery\<close> (file CompiledQuery, imported by
  Query.ts), a literal SQL string plus an ordered list of bound values; Query.ts builds it
  with \<open>new CompiledQuery(sql, params)\<close>.
\<close>

record CompiledQuery =
  sql :: string
  params :: "jsval list"

text \<open>
  A \<open>TemplateStringsArray\<close>: the literal pieces of a template literal. The language
  builds it with one more string than the literal has substitutions, so it always has a
  first string.
\<close>

datatype TemplateStringsArray = TemplateStrings (first: string) (rest: "string list")

definition strings_length :: "TemplateStringsArray \<Rightarrow> nat" where
  "strings_length strings = Suc (length (rest strings))"

definition strings_at :: "TemplateStringsArray \<Rightarrow> nat \<Rightarrow> string" where
  "strings_at strings i = (first strings # rest strings) ! i"

text \<open>
  An argument of the tag function: either an instance of \<open>Query\<close> or any other value.
\<close>

datatype TemplateArg = ArgQuery Query | ArgValue jsval

text \<open>\<open>params[j]\<close>: reading past the end of the rest arguments gives \<open>undefined\<close>.\<close>

definition arg_at :: "TemplateArg list \<Rightarrow> nat \<Rightarrow> TemplateArg" where
  "arg_at ps j = (if j < length ps then ps ! j else ArgValue Undefined)"

definition push_param :: "TemplateArg \<Rightarrow> QueryPart" where
  "push_param a = (case a of ArgQuery q \<Rightarrow> PQuery q | ArgValue v \<Rightarrow> PParam (QueryParam v))"

text \<open>
  \<open>Query.createFromTemplateString\<close>: \<open>parts\<close> starts as \<open>[strings[0]]\<close>; the loop
  runs \<open>i\<close> from 1 below \<open>strings.length\<close> and pushes the argument \<open>i - 1\<close>, then
  \<open>strings[i]\<close>.
\<close>

definition loop_body ::
  "TemplateStringsArray \<Rightarrow> TemplateArg list \<Rightarrow> QueryPart list \<Rightarrow> nat \<Rightarrow> QueryPart list" where
  "loop_body strings ps acc i =
     acc @ [push_param (arg_at ps (i - 1))] @ [PString (strings_at strings i)]"

definition createFromTemplateString :: "TemplateStringsArray \<Rightarrow> TemplateArg list \<Rightarrow> Query" where
  "createFromTemplateString strings ps =
     Query (foldl (loop_body strings ps)
              [PString (strings_at strings 0)]
              [1 ..< strings_length strings])"

text \<open>
  The loop of \<open>Query.compile\<close>, with the receiver's \<open>parts\<close>, the index, \<open>sql\<close> and
  \<open>params\<close> as its state. A part that is a \<open>QueryParam\<close> appends the placeholder of
  the current length of \<open>params\<close> and pushes the value; every other part goes through
  \<open>sql += part\<close>, which for a nested \<open>Query\<close> (a class without \<open>toString\<close>) is the
  text \<open>[object Object]\<close>.
\<close>

function compile_loop ::
  "(nat \<Rightarrow> string) \<Rightarrow> QueryPart list \<Rightarrow> nat \<Rightarrow> string \<Rightarrow> jsval list
     \<Rightarrow> QueryPart list \<times> string \<times> jsval list" where
  "compile_loop indexToPlaceholder this_parts i s ps =
     (if i < length this_parts then
        (case this_parts ! i of
           PParam qp \<Rightarrow>
             compile_loop indexToPlaceholder this_parts (i + 1)
               (s @ indexToPlaceholder (length ps)) (ps @ [param qp])
         | PString str \<Rightarrow> compile_loop indexToPlaceholder this_parts (i + 1) (s @ str) ps
         | PQuery q \<Rightarrow>
             compile_loop indexToPlaceholder this_parts (i + 1) (s @ ''[object Object]'') ps)
      else (this_parts, s, ps))"
  by pat_completeness auto
termination
  by (relation "measure (\<lambda>(f, this_parts, i, s, ps). length this_parts - i)") auto

declare compile_loop.simps [simp del]

text \<open>
  \<open>compile_run\<close> gives the receiver as the call leaves it together with the result;
  \<open>compile\<close> is the result alone.
\<close>

definition compile_run :: "(nat \<Rightarrow> string) \<Rightarrow> Query \<Rightarrow> Query \<times> CompiledQuery" where
  "compile_run indexToPlaceholder this =
     (case compile_loop indexToPlaceholder (parts this) 0 [] [] of
        (this_parts, s, ps) \<Rightarrow> (Query this_parts, \<lparr>sql = s, params = ps\<rparr>))"

definition compile :: "(nat \<Rightarrow> string) \<Rightarrow> Query \<Rightarrow> CompiledQuery" where
  "compile indexToPlaceholder this = snd (compile_run indexToPlaceholder this)"

text \<open>The string-template shape of a list of parts, and the two counts of the invariant.\<close>

fun is_literal :: "QueryPart \<Rightarrow> bool" where
  "is_literal (PString s) = True"
| "is_literal (PParam qp) = False"
| "is_literal (PQuery q) = False"

fun alternating :: "QueryPart list \<Rightarrow> bool" where
  "alternating [p] = is_literal p"
| "alternating (p # q # ps) = (is_literal p \<and> \<not> is_literal q \<and> alternating ps)"
| "alternating [] = False"

text \<open>The number of \<open>QueryParam\<close> parts anywhere in a fragment tree, and their values
  in depth-first left-to-right order.\<close>

fun tree_params :: "Query \<Rightarrow> jsval list"
  and part_params :: "QueryPart \<Rightarrow> jsval list" where
  "tree_params (Query ps) = concat (map part_params ps)"
| "part_params (PString s) = []"
| "part_params (PParam qp) = [param qp]"
| "part_params (PQuery q) = tree_params q"

fun is_nested :: "QueryPart \<Rightarrow> bool" where
  "is_nested (PQuery q) = True"
| "is_nested p = False"

text \<open>A usual placeholder function: \<open>i => '$' + (i + 1)\<close>.\<close>

definition dollar :: "nat \<Rightarrow> string" where
  "dollar i = ''$'' @ decimal (i + 1)"

section \<open>SqlQuery and QueryIdentifier\<close>

text \<open>
  The repository builds its statements with \<open>SqlQuery\<close> and \<open>QueryIdentifier\<close>, whose
  files are not among the sources. Their parts are the four kinds the specification
  lists; \<open>QueryParam\<close> is the class of Query.ts.
\<close>

text \<open>
  Modelled from the spec: the class \<open>QueryIdentifier\<close> (file Queries/QueryIdentifier),
  the wrapper of a table or column name that marks it as an identifier;
  the repository builds it with \<open>new QueryIdentifier(name)\<close>.
\<close>

datatype QueryIdentifier = QueryIdentifier (ident_name: string)

text \<open>
  Modelled from the spec: the \<open>SqlQuery\<close> class (file Queries/SqlQuery). A fragment is
  an ordered sequence of parts, each a literal string, a parameter value, an identifier
  marker or a nested fragment.
\<close>

datatype SqlPart =
    SqlString string
  | SqlParam QueryParam
  | SqlIdentifier QueryIdentifier
  | SqlNested SqlQuery
and SqlQuery = SqlQuery (sql_parts: "SqlPart list")

text \<open>
  An argument of the \<open>sql\<close> tag: a fragment, an identifier wrapper, or any other value.
  An option the caller left out reaches a template as \<open>undefined\<close>.
\<close>

datatype SqlArg = ArgSql SqlQuery | ArgIdentifier QueryIdentifier | ArgAny jsval

definition sql_arg_at :: "SqlArg list \<Rightarrow> nat \<Rightarrow> SqlArg" where
  "sql_arg_at as j = (if j < length as then as ! j else ArgAny Undefined)"

definition arg_of_option :: "SqlQuery option \<Rightarrow> SqlArg" where
  "arg_of_option q = (case q of None \<Rightarrow> ArgAny Undefined | Some f \<Rightarrow> ArgSql f)"

definition sql_push_param :: "SqlArg \<Rightarrow> SqlPart" where
  "sql_push_param a =
     (case a of
        ArgSql q \<Rightarrow> SqlNested q
      | ArgIdentifier n \<Rightarrow> SqlIdentifier n
      | ArgAny v \<Rightarrow> SqlParam (QueryParam v))"

text \<open>
  Modelled from the spec: \<open>SqlQuery.createFromTemplateString\<close>, the tag \<open>sql\<close> of the
  repository. It constructs a fragment from the alternating literals and arguments, as
  \<open>Query.createFromTemplateString\<close> does; an argument that is itself a fragment is
  spliced in as a nested fragment, an identifier wrapper becomes a part rendered as an
  identifier, and any other argument is a bound parameter.
\<close>

definition sql_tag :: "TemplateStringsArray \<Rightarrow> SqlArg list \<Rightarrow> SqlQuery" where
  "sql_tag strings as =
     SqlQuery (foldl (\<lambda>acc i. acc @ [sql_push_param (sql_arg_at as (i - 1))]
                                  @ [SqlString (strings_at strings i)])
                 [SqlString (strings_at strings 0)]
                 [1 ..< strings_length strings])"

text \<open>
  Modelled from the spec: \<open>SqlQuery.join\<close> concatenates a sequence of fragments with the
  separator fragment between each, preserving structure.
\<close>

fun join_parts :: "SqlQuery list \<Rightarrow> SqlQuery \<Rightarrow> SqlPart list" where
  "join_parts [] separator = []"
| "join_parts [q] separator = [SqlNested q]"
| "join_parts (q # qs) separator = SqlNested q # SqlNested separator # join_parts qs separator"

definition SqlQuery_join :: "SqlQuery list \<Rightarrow> SqlQuery \<Rightarrow> SqlQuery" where
  "SqlQuery_join queries separator = SqlQuery (join_parts queries separator)"

text \<open>
  Modelled from the spec: \<open>SqlQuery.compile\<close> flattens a fragment tree depth-first and
  left to right into one string and one value list. An identifier is rendered inline by
  the collaborator's \<open>formatIdentifier\<close>; a parameter is appended to the value list and
  replaced by the placeholder of its index in the final flat list.
\<close>

fun sql_compile_parts ::
  "(nat \<Rightarrow> string) \<Rightarrow> (string \<Rightarrow> string) \<Rightarrow> SqlPart list \<Rightarrow> string \<times> jsval list
     \<Rightarrow> string \<times> jsval list"
  and sql_compile_part ::
  "(nat \<Rightarrow> string) \<Rightarrow> (string \<Rightarrow> string) \<Rightarrow> SqlPart \<Rightarrow> string \<times> jsval list
     \<Rightarrow> string \<times> jsval list" where
  "sql_compile_parts itp fid [] acc = acc"
| "sql_compile_parts itp fid (p # ps) acc =
     sql_compile_parts itp fid ps (sql_compile_part itp fid p acc)"
| "sql_compile_part itp fid (SqlString str) acc = (fst acc @ str, snd acc)"
| "sql_compile_part itp fid (SqlParam qp) acc =
     (fst acc @ itp (length (snd acc)), snd acc @ [param qp])"
| "sql_compile_part itp fid (SqlIdentifier n) acc = (fst acc @ fid (ident_name n), snd acc)"
| "sql_compile_part itp fid (SqlNested (SqlQuery ps)) acc = sql_compile_parts itp fid ps acc"

definition sql_compile :: "(nat \<Rightarrow> string) \<Rightarrow> (string \<Rightarrow> string) \<Rightarrow> SqlQuery \<Rightarrow> CompiledQuery" where
  "sql_compile itp fid q =
     (case sql_compile_parts itp fid (sql_parts q) ([], []) of
        (s, ps) \<Rightarrow> \<lparr>sql = s, params = ps\<rparr>)"

text \<open>A usual identifier format: the name between double quotes.\<close>

definition quoted :: "string \<Rightarrow> string" where
  "quoted n = [CHR 0x22] @ n @ [CHR 0x22]"

text \<open>Whether a fragment occurs in a fragment tree (as the tree itself or nested in it).\<close>

fun occurs_in :: "SqlQuery \<Rightarrow> SqlQuery \<Rightarrow> bool"
  and occurs_in_part :: "SqlQuery \<Rightarrow> SqlPart \<Rightarrow> bool" where
  "occurs_in f (SqlQuery ps) = (f = SqlQuery ps \<or> list_ex (occurs_in_part f) ps)"
| "occurs_in_part f (SqlString str) = False"
| "occurs_in_part f (SqlParam qp) = False"
| "occurs_in_part f (SqlIdentifier n) = False"
| "occurs_in_part f (SqlNested q) = occurs_in f q"

section \<open>Objects\<close>

text \<open>
  \<open>o[k] = v\<close> on the own properties of an object: an existing key keeps its place, a
  new key goes last. \<open>o[k]\<close> reads \<open>undefined\<close> for a missing key.
\<close>

fun setProperty :: "props \<Rightarrow> string \<Rightarrow> jsval \<Rightarrow> props" where
  "setProperty [] k v = [(k, v)]"
| "setProperty (p # ps) k v = (if fst p = k then (k, v) # ps else p # setProperty ps k v)"

definition getProperty :: "props \<Rightarrow> string \<Rightarrow> jsval" where
  "getProperty ps k = (case map_of ps k of None \<Rightarrow> Undefined | Some v \<Rightarrow> v)"

text \<open>
  The own enumerable properties \<open>Object.assign\<close> copies from a source: those of an
  object, the indexed characters of a string, none for any other primitive, for \<open>null\<close>
  and for \<open>undefined\<close>.
\<close>

fun ownEnumerable :: "jsval \<Rightarrow> props" where
  "ownEnumerable (Obj ps) = ps"
| "ownEnumerable (Str str) = map (\<lambda>i. (decimal i, Str [str ! i])) [0 ..< length str]"
| "ownEnumerable v = []"

definition Object_assign :: "props \<Rightarrow> jsval \<Rightarrow> props" where
  "Object_assign target source =
     foldl (\<lambda>t kv. setProperty t (fst kv) (snd kv)) target (ownEnumerable source)"

text \<open>Truthiness, as \<open>||\<close> tests it, and \<open>typeof v === 'string' || typeof v === 'number'\<close>.\<close>

fun truthy :: "jsval \<Rightarrow> bool" where
  "truthy Undefined = False"
| "truthy Null = False"
| "truthy (Bool b) = b"
| "truthy (Num n) = (n \<noteq> 0)"
| "truthy (Str str) = (str \<noteq> [])"
| "truthy (Obj ps) = True"

fun is_string_or_number :: "jsval \<Rightarrow> bool" where
  "is_string_or_number (Str str) = True"
| "is_string_or_number (Num n) = True"
| "is_string_or_number v = False"

text \<open>
  Models are objects with identity: the heap is the list of the objects allocated so
  far, and a reference is an index into it. An object has its prototype (the model class
  it was created from, by name) and its own properties.
\<close>

record object =
  prototype :: string
  properties :: props

type_synonym heap = "object list"

section \<open>CrudRepository\<close>

text \<open>
  The two errors the repository raises, and a failure of the driver, which passes
  through unchanged.
\<close>

datatype error =
    NotFoundError string
  | TooManyResultsError string
  | DriverError string

text \<open>
  Modelled from the spec: the \<open>DatabaseInterface\<close> collaborator (file
  Databases/DatabaseInterface). \<open>query\<close> resolves to rows, \<open>insertAndGet\<close> to a list
  holding an id or a row, \<open>updateAndGet\<close> to rows or \<open>null\<close>; each may reject instead,
  and each may change the state \<open>'db\<close> of the database. \<open>sequence\<close> is an opaque
  boundary: it runs its callback once, on a handle with the same three operations, and
  resolves to what the callback returns.
\<close>

record 'db DatabaseInterface =
  query :: "SqlQuery \<Rightarrow> 'db \<Rightarrow> (string + props list) \<times> 'db"
  insertAndGet :: "SqlQuery \<Rightarrow> 'db \<Rightarrow> (string + jsval list) \<times> 'db"
  updateAndGet :: "SqlQuery \<Rightarrow> 'db \<Rightarrow> (string + props list option) \<times> 'db"

record 'db CrudRepository =
  database :: "'db DatabaseInterface"
  table :: string
  primaryKey :: string
  model :: string
  scope :: "SqlQuery option"

record get_options =
  opt_postfix :: "SqlQuery option"
  opt_select :: "SqlQuery option"

record search_options = get_options +
  opt_from :: "SqlQuery option"
  opt_where :: "SqlQuery option"
  opt_groupBy :: "SqlQuery option"
  opt_orderBy :: "SqlQuery option"

text \<open>The line breaks and tabs inside the template literals of the source.\<close>

definition nl2 :: string where "nl2 = [CHR 0x0A, CHR 0x09, CHR 0x09]"
definition nl3 :: string where "nl3 = [CHR 0x0A, CHR 0x09, CHR 0x09, CHR 0x09]"
definition nl4 :: string where "nl4 = [CHR 0x0A, CHR 0x09, CHR 0x09, CHR 0x09, CHR 0x09]"
definition nl5 :: string where
  "nl5 = [CHR 0x0A, CHR 0x09, CHR 0x09, CHR 0x09, CHR 0x09, CHR 0x09]"

text \<open>\<open>createModelFromAttributes\<close>: a fresh object on the model's prototype, with the
  properties of \<open>attributes\<close> assigned onto it.\<close>

definition createModelFromAttributes ::
  "('db, 'z) CrudRepository_scheme \<Rightarrow> jsval \<Rightarrow> heap \<Rightarrow> nat \<times> heap" where
  "createModelFromAttributes this attributes h =
     (length h, h @ [\<lparr>prototype = model this, properties = Object_assign [] attributes\<rparr>])"

subsection \<open>get (the same text in both implementations)\<close>

definition get_filters :: "('db, 'z) CrudRepository_scheme \<Rightarrow> jsval \<Rightarrow> SqlQuery list" where
  "get_filters this primaryKeyValue =
     [sql_tag (TemplateStrings [] ['' = '', []])
        [ArgIdentifier (QueryIdentifier (primaryKey this)), ArgAny primaryKeyValue]]
     @ (case scope this of
          None \<Rightarrow> []
        | Some sc \<Rightarrow> [sql_tag (TemplateStrings ''('' ['')'']) [ArgSql sc]])"

definition get_query ::
  "('db, 'z) CrudRepository_scheme \<Rightarrow> jsval \<Rightarrow> get_options \<Rightarrow> SqlQuery" where
  "get_query this primaryKeyValue opts =
     (let filters = get_filters this primaryKeyValue;
          postfixClause = (case opt_postfix opts of
                             Some p \<Rightarrow> sql_tag (TemplateStrings [] [[]]) [ArgSql p]
                           | None \<Rightarrow> sql_tag (TemplateStrings [] []) []);
          selectClause = (case opt_select opts of
                            Some sel \<Rightarrow> sql_tag (TemplateStrings [] [[]]) [ArgSql sel]
                          | None \<Rightarrow> sql_tag (TemplateStrings ''*'' []) [])
      in sql_tag
           (TemplateStrings (nl3 @ ''SELECT '')
              [nl3 @ ''FROM '', nl3 @ ''WHERE '', nl3, '';'' @ nl2])
           [ArgSql selectClause,
            ArgIdentifier (QueryIdentifier (table this)),
            ArgSql (SqlQuery_join filters (sql_tag (TemplateStrings '' AND '' []) [])),
            ArgSql postfixClause])"

definition not_found_message :: "('db, 'z) CrudRepository_scheme \<Rightarrow> jsval \<Rightarrow> string" where
  "not_found_message this v =
     ''Object not found in table '' @ table this @ '' for '' @ primaryKey this @ '' = ''
       @ ToString v"

definition too_many_message :: "('db, 'z) CrudRepository_scheme \<Rightarrow> jsval \<Rightarrow> string" where
  "too_many_message this v =
     ''Multiple objects found in table '' @ table this @ '' for '' @ primaryKey this
       @ '' = '' @ ToString v"

definition get ::
  "('db, 'z) CrudRepository_scheme \<Rightarrow> jsval \<Rightarrow> get_options \<Rightarrow> 'db \<Rightarrow> heap
     \<Rightarrow> (error + nat) \<times> 'db \<times> heap" where
  "get this primaryKeyValue opts s h =
     (case query (database this) (get_query this primaryKeyValue opts) s of
        (Inl e, s1) \<Rightarrow> (Inl (DriverError e), s1, h)
      | (Inr results, s1) \<Rightarrow>
          if length results = 0 then
            (Inl (NotFoundError (not_found_message this primaryKeyValue)), s1, h)
          else if length results > 1 then
            (Inl (TooManyResultsError (too_many_message this primaryKeyValue)), s1, h)
          else
            (case createModelFromAttributes this (Obj (results ! 0)) h of
               (m, h1) \<Rightarrow> (Inr m, s1, h1)))"

subsection \<open>search (second implementation)\<close>

definition search_filters ::
  "('db, 'z) CrudRepository_scheme \<Rightarrow> search_options \<Rightarrow> SqlQuery list" where
  "search_filters this opts =
     (case scope this of
        Some sc \<Rightarrow> [sql_tag (TemplateStrings ''('' ['')'']) [ArgSql sc]]
      | None \<Rightarrow> [])
     @ (case opt_where opts of
          Some w \<Rightarrow> [sql_tag (TemplateStrings ''('' ['')'']) [ArgSql w]]
        | None \<Rightarrow> [])"

definition whereClause :: "('db, 'z) CrudRepository_scheme \<Rightarrow> search_options \<Rightarrow> SqlQuery" where
  "whereClause this opts =
     (let filters = search_filters this opts
      in if length filters \<noteq> 0 then
           sql_tag (TemplateStrings ''WHERE '' [[]])
             [ArgSql (SqlQuery_join filters (sql_tag (TemplateStrings '' AND '' []) []))]
         else sql_tag (TemplateStrings [] []) [])"

definition orderByClause :: "search_options \<Rightarrow> SqlQuery" where
  "orderByClause opts =
     (case opt_orderBy opts of
        Some ob \<Rightarrow> sql_tag (TemplateStrings ''ORDER BY '' [[]]) [ArgSql ob]
      | None \<Rightarrow> sql_tag (TemplateStrings [] []) [])"

definition groupByClause :: "search_options \<Rightarrow> SqlQuery" where
  "groupByClause opts =
     (case opt_groupBy opts of
        Some gb \<Rightarrow> sql_tag (TemplateStrings ''GROUP BY '' [[]]) [ArgSql gb]
      | None \<Rightarrow> sql_tag (TemplateStrings [] []) [])"

definition postfixClause :: "search_options \<Rightarrow> SqlQuery" where
  "postfixClause opts =
     (case opt_postfix opts of
        Some p \<Rightarrow> sql_tag (TemplateStrings [] [[]]) [ArgSql p]
      | None \<Rightarrow> sql_tag (TemplateStrings [] []) [])"

definition selectClause :: "search_options \<Rightarrow> SqlQuery" where
  "selectClause opts =
     (case opt_select opts of
        Some sel \<Rightarrow> sql_tag (TemplateStrings [] [[]]) [ArgSql sel]
      | None \<Rightarrow> sql_tag (TemplateStrings ''*'' []) [])"

text \<open>The source tests \<open>select\<close> here, and interpolates \<open>from\<close>.\<close>

definition fromClause :: "('db, 'z) CrudRepository_scheme \<Rightarrow> search_options \<Rightarrow> SqlQuery" where
  "fromClause this opts =
     (case opt_select opts of
        Some sel \<Rightarrow> sql_tag (TemplateStrings [] [[]]) [arg_of_option (opt_from opts)]
      | None \<Rightarrow> sql_tag (TemplateStrings [] [[]]) [ArgIdentifier (QueryIdentifier (table this))])"

definition search_query :: "('db, 'z) CrudRepository_scheme \<Rightarrow> search_options \<Rightarrow> SqlQuery" where
  "search_query this opts =
     sql_tag
       (TemplateStrings (nl3 @ ''SELECT '') [nl3 @ ''FROM '', '' '', nl3, nl3, nl3, nl2])
       [ArgSql (selectClause opts),
        ArgSql (fromClause this opts),
        ArgSql (postfixClause opts),
        ArgSql (whereClause this opts),
        ArgSql (groupByClause opts),
        ArgSql (orderByClause opts)]"

text \<open>\<open>results.map(result => this.createModelFromAttributes(result))\<close>, in order.\<close>

fun map_models ::
  "('db, 'z) CrudRepository_scheme \<Rightarrow> props list \<Rightarrow> heap \<Rightarrow> nat list \<times> heap" where
  "map_models this [] h = ([], h)"
| "map_models this (r # rs) h =
     (case createModelFromAttributes this (Obj r) h of
        (m, h1) \<Rightarrow> (case map_models this rs h1 of (ms, h2) \<Rightarrow> (m # ms, h2)))"

definition search ::
  "('db, 'z) CrudRepository_scheme \<Rightarrow> search_options \<Rightarrow> 'db \<Rightarrow> heap
     \<Rightarrow> (error + nat list) \<times> 'db \<times> heap" where
  "search this opts s h =
     (case query (database this) (search_query this opts) s of
        (Inl e, s1) \<Rightarrow> (Inl (DriverError e), s1, h)
      | (Inr results, s1) \<Rightarrow>
          (case map_models this results h of (ms, h1) \<Rightarrow> (Inr ms, s1, h1)))"

subsection \<open>The statements of create, update and delete\<close>

text \<open>The follow-up \<open>SELECT *\<close> by primary key, the same text in create and update.\<close>

definition select_query :: "('db, 'z) CrudRepository_scheme \<Rightarrow> jsval \<Rightarrow> SqlQuery" where
  "select_query this v =
     sql_tag
       (TemplateStrings (nl5 @ ''SELECT *'' @ nl5 @ ''FROM '')
          [nl5 @ ''WHERE '', '' = '', '';'' @ nl4])
       [ArgIdentifier (QueryIdentifier (table this)),
        ArgIdentifier (QueryIdentifier (primaryKey this)),
        ArgAny v]"

definition insert_query :: "('db, 'z) CrudRepository_scheme \<Rightarrow> props \<Rightarrow> SqlQuery" where
  "insert_query this attributes =
     (let entries = attributes;
          fields = map (\<lambda>kv. sql_tag (TemplateStrings [] [[]])
                               [ArgIdentifier (QueryIdentifier (fst kv))]) entries;
          vals = map (\<lambda>kv. sql_tag (TemplateStrings [] [[]]) [ArgAny (snd kv)]) entries
      in sql_tag
           (TemplateStrings (nl4 @ ''INSERT INTO '')
              ['' ('', '')'' @ nl4 @ ''VALUES ('', '')'' @ nl3])
           [ArgIdentifier (QueryIdentifier (table this)),
            ArgSql (SqlQuery_join fields (sql_tag (TemplateStrings '', '' []) [])),
            ArgSql (SqlQuery_join vals (sql_tag (TemplateStrings '', '' []) []))])"

definition update_query :: "('db, 'z) CrudRepository_scheme \<Rightarrow> jsval \<Rightarrow> props \<Rightarrow> SqlQuery" where
  "update_query this pk attributes =
     (let fieldQueries =
            map (\<lambda>kv. sql_tag (TemplateStrings [] ['' = '', []])
                         [ArgIdentifier (QueryIdentifier (fst kv)), ArgAny (snd kv)]) attributes
      in sql_tag
           (TemplateStrings (nl4 @ ''UPDATE '')
              [nl4 @ ''SET '', nl4 @ ''WHERE '', '' = '', nl3])
           [ArgIdentifier (QueryIdentifier (table this)),
            ArgSql (SqlQuery_join fieldQueries (sql_tag (TemplateStrings '', '' []) [])),
            ArgIdentifier (QueryIdentifier (primaryKey this)),
            ArgAny pk])"

definition delete_query :: "('db, 'z) CrudRepository_scheme \<Rightarrow> jsval \<Rightarrow> SqlQuery" where
  "delete_query this pk =
     sql_tag
       (TemplateStrings (nl3 @ ''DELETE FROM '') [nl3 @ ''WHERE '', '' = '', '';'' @ nl2])
       [ArgIdentifier (QueryIdentifier (table this)),
        ArgIdentifier (QueryIdentifier (primaryKey this)),
        ArgAny pk]"

definition after_insert_message :: "('db, 'z) CrudRepository_scheme \<Rightarrow> jsval \<Rightarrow> string" where
  "after_insert_message this v =
     ''Object not found in table '' @ table this @ '' after insert (got '' @ primaryKey this
       @ '' = '' @ ToString v @ '')''"

definition after_update_message :: "('db, 'z) CrudRepository_scheme \<Rightarrow> jsval \<Rightarrow> string" where
  "after_update_message this v =
     ''Object not found in table '' @ table this @ '' after update (got '' @ primaryKey this
       @ '' = '' @ ToString v @ '')''"

text \<open>\<open>(await insertAndGet(...))[0]\<close>: the first element, \<open>undefined\<close> for an empty array.\<close>

definition first_element :: "jsval list \<Rightarrow> jsval" where
  "first_element arr = (if 0 < length arr then arr ! 0 else Undefined)"

text \<open>\<open>(<any>model)[this.primaryKey]\<close>, read from the model object in the heap.\<close>

definition model_key :: "('db, 'z) CrudRepository_scheme \<Rightarrow> heap \<Rightarrow> nat \<Rightarrow> jsval" where
  "model_key this h m = getProperty (properties (h ! m)) (primaryKey this)"

text \<open>\<open>Object.assign(o, row)\<close> on the object a reference points to.\<close>

definition assign_onto :: "heap \<Rightarrow> nat \<Rightarrow> props \<Rightarrow> heap" where
  "assign_onto h m row =
     h[m := (h ! m)\<lparr>properties := Object_assign (properties (h ! m)) (Obj row)\<rparr>]"

subsection \<open>create\<close>

text \<open>The second implementation: the last branch maps \<open>data || attributes\<close>.\<close>

definition create ::
  "('db, 'z) CrudRepository_scheme \<Rightarrow> props \<Rightarrow> 'db \<Rightarrow> heap \<Rightarrow> (error + nat) \<times> 'db \<times> heap" where
  "create this attributes s h =
     (case insertAndGet (database this) (insert_query this attributes) s of
        (Inl e, s1) \<Rightarrow> (Inl (DriverError e), s1, h)
      | (Inr arr, s1) \<Rightarrow>
          (let data = first_element arr
           in if is_string_or_number data then
                (case query (database this) (select_query this data) s1 of
                   (Inl e, s2) \<Rightarrow> (Inl (DriverError e), s2, h)
                 | (Inr results, s2) \<Rightarrow>
                     if length results = 0 then
                       (Inl (NotFoundError (after_insert_message this data)), s2, h)
                     else
                       (case createModelFromAttributes this (Obj (results ! 0)) h of
                          (m, h1) \<Rightarrow> (Inr m, s2, h1)))
              else
                (case createModelFromAttributes this
                        (if truthy data then data else Obj attributes) h of
                   (m, h1) \<Rightarrow> (Inr m, s1, h1))))"

text \<open>The first implementation: the last branch maps \<open>data\<close>.\<close>

definition first_create ::
  "('db, 'z) CrudRepository_scheme \<Rightarrow> props \<Rightarrow> 'db \<Rightarrow> heap \<Rightarrow> (error + nat) \<times> 'db \<times> heap" where
  "first_create this attributes s h =
     (case insertAndGet (database this) (insert_query this attributes) s of
        (Inl e, s1) \<Rightarrow> (Inl (DriverError e), s1, h)
      | (Inr arr, s1) \<Rightarrow>
          (let data = first_element arr
           in if is_string_or_number data then
                (case query (database this) (select_query this data) s1 of
                   (Inl e, s2) \<Rightarrow> (Inl (DriverError e), s2, h)
                 | (Inr results, s2) \<Rightarrow>
                     if length results = 0 then
                       (Inl (NotFoundError (after_insert_message this data)), s2, h)
                     else
                       (case createModelFromAttributes this (Obj (results ! 0)) h of
                          (m, h1) \<Rightarrow> (Inr m, s2, h1)))
              else
                (case createModelFromAttributes this data h of
                   (m, h1) \<Rightarrow> (Inr m, s1, h1))))"

subsection \<open>update\<close>

text \<open>
  Both implementations run the same statements and checks and differ in the last two
  lines. \<open>update_rows\<close> is what precedes them: the rows in \<open>results\<close>, or the error
  raised.
\<close>

definition update_rows ::
  "('db, 'z) CrudRepository_scheme \<Rightarrow> nat \<Rightarrow> props \<Rightarrow> 'db \<Rightarrow> heap
     \<Rightarrow> (error + props list) \<times> 'db" where
  "update_rows this m attributes s h =
     (case updateAndGet (database this)
             (update_query this (model_key this h m) attributes) s of
        (Inl e, s1) \<Rightarrow> (Inl (DriverError e), s1)
      | (Inr None, s1) \<Rightarrow>
          (case query (database this) (select_query this (model_key this h m)) s1 of
             (Inl e, s2) \<Rightarrow> (Inl (DriverError e), s2)
           | (Inr results, s2) \<Rightarrow>
               if length results = 0 then
                 (Inl (NotFoundError (after_update_message this (model_key this h m))), s2)
               else (Inr results, s2))
      | (Inr (Some results), s1) \<Rightarrow>
          if length results = 0 then
            (Inl (NotFoundError (not_found_message this (model_key this h m))), s1)
          else if length results > 1 then
            (Inl (TooManyResultsError (too_many_message this (model_key this h m))), s1)
          else (Inr results, s1))"

text \<open>The second implementation: \<open>Object.assign(model, results[0]); return model\<close>.\<close>

definition update ::
  "('db, 'z) CrudRepository_scheme \<Rightarrow> nat \<Rightarrow> props \<Rightarrow> 'db \<Rightarrow> heap
     \<Rightarrow> (error + nat) \<times> 'db \<times> heap" where
  "update this m attributes s h =
     (case update_rows this m attributes s h of
        (Inl e, s1) \<Rightarrow> (Inl e, s1, h)
      | (Inr results, s1) \<Rightarrow> (Inr m, s1, assign_onto h m (results ! 0)))"

text \<open>
  The first implementation: \<open>newModel = createModelFromAttributes(model)\<close>, then
  \<open>Object.assign(newModel, results[0]); return newModel\<close>.
\<close>

definition first_update ::
  "('db, 'z) CrudRepository_scheme \<Rightarrow> nat \<Rightarrow> props \<Rightarrow> 'db \<Rightarrow> heap
     \<Rightarrow> (error + nat) \<times> 'db \<times> heap" where
  "first_update this m attributes s h =
     (case update_rows this m attributes s h of
        (Inl e, s1) \<Rightarrow> (Inl e, s1, h)
      | (Inr results, s1) \<Rightarrow>
          (case createModelFromAttributes this (Obj (properties (h ! m))) h of
             (newModel, h1) \<Rightarrow> (Inr newModel, s1, assign_onto h1 newModel (results ! 0))))"

subsection \<open>delete (the same text in both implementations)\<close>

definition delete ::
  "('db, 'z) CrudRepository_scheme \<Rightarrow> nat \<Rightarrow> 'db \<Rightarrow> heap \<Rightarrow> (error + unit) \<times> 'db \<times> heap" where
  "delete this m s h =
     (case query (database this) (delete_query this (model_key this h m)) s of
        (Inl e, s1) \<Rightarrow> (Inl (DriverError e), s1, h)
      | (Inr results, s1) \<Rightarrow> (Inr (), s1, h))"

section \<open>A stub driver\<close>

text \<open>
  A driver for concrete runs: it records every statement it is given and answers with
  the rows, the insert result and the update result held in its state.
\<close>

record stub =
  issued :: "SqlQuery list"
  stub_rows :: "props list"
  stub_inserted :: "jsval list"
  stub_updated :: "props list option"

definition stub_db :: "stub DatabaseInterface" where
  "stub_db =
     \<lparr>query = (\<lambda>q s. (Inr (stub_rows s), s\<lparr>issued := issued s @ [q]\<rparr>)),
      insertAndGet = (\<lambda>q s. (Inr (stub_inserted s), s\<lparr>issued := issued s @ [q]\<rparr>)),
      updateAndGet = (\<lambda>q s. (Inr (stub_updated s), s\<lparr>issued := issued s @ [q]\<rparr>))\<rparr>"

definition stub_repo :: "SqlQuery option \<Rightarrow> stub CrudRepository" where
  "stub_repo sc =
     \<lparr>database = stub_db, table = ''users'', primaryKey = ''id'', model = ''User'',
      scope = sc\<rparr>"

definition stub_state :: "props list \<Rightarrow> jsval list \<Rightarrow> props list option \<Rightarrow> stub" where
  "stub_state rs ins upd =
     \<lparr>issued = [], stub_rows = rs, stub_inserted = ins, stub_updated = upd\<rparr>"

section \<open>Concrete inputs\<close>

definition no_options :: get_options where
  "no_options = \<lparr>opt_postfix = None, opt_select = None\<rparr>"

definition no_search_options :: search_options where
  "no_search_options =
     \<lparr>opt_postfix = None, opt_select = None, opt_from = None, opt_where = None,
        opt_groupBy = None, opt_orderBy = None\<rparr>"

text \<open>\<open>search({select: sql`id`})\<close>: a select list and no other option.\<close>

definition select_id :: search_options where
  "select_id =
     \<lparr>opt_postfix = None, opt_select = Some (sql_tag (TemplateStrings ''id'' []) []),
        opt_from = None, opt_where = None, opt_groupBy = None, opt_orderBy = None\<rparr>"

text \<open>The scope \<open>sql`deleted = ${false}`\<close>.\<close>

definition soft_delete :: SqlQuery where
  "soft_delete = sql_tag (TemplateStrings ''deleted = '' [[]]) [ArgAny (Bool False)]"

definition row7 :: props where
  "row7 = [(''id'', Num 7), (''name'', Str ''Ann'')]"

definition rowB :: props where
  "rowB = [(''name'', Str ''Bob''), (''age'', Num 30)]"

definition set_name :: props where
  "set_name = [(''name'', Str ''Bob'')]"

definition user7 :: heap where
  "user7 = [\<lparr>prototype = ''User'', properties = row7\<rparr>]"

text \<open>The fragment \<open>sql`SELECT ${sql`x = ${1}`}`\<close>, built with the tag of Query.ts.\<close>

definition inner_fragment :: Query where
  "inner_fragment = createFromTemplateString (TemplateStrings ''x = '' [[]]) [ArgValue (Num 1)]"

definition outer_fragment :: Query where
  "outer_fragment =
     createFromTemplateString (TemplateStrings ''SELECT '' [[]]) [ArgQuery inner_fragment]"

section \<open>Fragments of Query.ts\<close>

lemma push_param_not_literal: "\<not> is_literal (push_param a)"
  by (cases a) (simp_all add: push_param_def)

lemma alternating_snoc2:
  "alternating acc \<Longrightarrow> \<not> is_literal a \<Longrightarrow> is_literal b \<Longrightarrow> alternating (acc @ [a, b])"
  by (induction acc rule: alternating.induct) simp_all

lemma template_fold_alternating:
  "alternating acc \<Longrightarrow> alternating (foldl (loop_body strings ps) acc xs)"
  by (induction xs arbitrary: acc)
     (simp_all add: loop_body_def alternating_snoc2 push_param_not_literal)

lemma template_fold_literals:
  "length (filter is_literal (foldl (loop_body strings ps) acc xs))
     = length (filter is_literal acc) + length xs"
  by (induction xs arbitrary: acc) (simp_all add: loop_body_def push_param_not_literal)

lemma template_fold_holes:
  "length (filter (\<lambda>p. \<not> is_literal p) (foldl (loop_body strings ps) acc xs))
     = length (filter (\<lambda>p. \<not> is_literal p) acc) + length xs"
  by (induction xs arbitrary: acc) (simp_all add: loop_body_def push_param_not_literal)

lemma compile_loop_receiver: "fst (compile_loop itp this_parts i s ps) = this_parts"
proof (induction itp this_parts i s ps rule: compile_loop.induct)
  case (1 itp this_parts i s ps)
  show ?case
  proof (cases "i < length this_parts")
    case True
    with 1 show ?thesis
      by (subst compile_loop.simps) (simp split: QueryPart.splits)
  next
    case False
    then show ?thesis by (subst compile_loop.simps) simp
  qed
qed

lemma compile_run_receiver: "fst (compile_run itp q) = q"
proof -
  obtain a b c where r: "compile_loop itp (parts q) 0 [] [] = (a, b, c)"
    by (cases "compile_loop itp (parts q) 0 [] []") auto
  with compile_loop_receiver [of itp "parts q" 0 "[]" "[]"] have "a = parts q" by simp
  with r show ?thesis by (simp add: compile_run_def)
qed

text \<open>
  Claim C9. Every fragment \<open>createFromTemplateString\<close> builds has the string-template
  shape: its parts alternate literals with parameter or nested parts, from a literal to a
  literal, so there is one more literal than there are other parts; and \<open>compile\<close>
  leaves the fragment as it was.
\<close>

theorem createFromTemplateString_shape:
  "alternating (parts (createFromTemplateString strings ps))
   \<and> length (filter is_literal (parts (createFromTemplateString strings ps)))
       = length (filter (\<lambda>p. \<not> is_literal p) (parts (createFromTemplateString strings ps))) + 1
   \<and> fst (compile_run indexToPlaceholder (createFromTemplateString strings ps))
       = createFromTemplateString strings ps"
  by (simp add: createFromTemplateString_def template_fold_alternating template_fold_literals
        template_fold_holes compile_run_receiver del: upt_Suc)

text \<open>
  On a fragment without nested fragments, \<open>compile\<close> returns the parameters of the
  tree in order.
\<close>

lemma compile_loop_flat:
  "\<not> list_ex is_nested (drop i this_parts) \<Longrightarrow>
   snd (snd (compile_loop itp this_parts i s ps))
     = ps @ concat (map part_params (drop i this_parts))"
proof (induction itp this_parts i s ps rule: compile_loop.induct)
  case (1 itp this_parts i s ps)
  show ?case
  proof (cases "i < length this_parts")
    case True
    then have d: "drop i this_parts = this_parts ! i # drop (Suc i) this_parts"
      by (simp add: Cons_nth_drop_Suc)
    with "1.prems" have rest: "\<not> list_ex is_nested (drop (i + 1) this_parts)"
      and here: "\<not> is_nested (this_parts ! i)" by simp_all
    show ?thesis
    proof (cases "this_parts ! i")
      case (PString str)
      with True "1.IH"(1) rest d show ?thesis
        by (subst compile_loop.simps) simp
    next
      case (PParam qp)
      with True "1.IH"(2) rest d show ?thesis
        by (subst compile_loop.simps) simp
    next
      case (PQuery q)
      with here show ?thesis by simp
    qed
  next
    case False
    then show ?thesis by (subst compile_loop.simps) simp
  qed
qed

lemma compile_flat_params:
  "\<not> list_ex is_nested (parts q) \<Longrightarrow> params (compile itp q) = tree_params q"
  using compile_loop_flat [of 0 "parts q" itp "[]" "[]"]
  by (cases q) (auto simp add: compile_def compile_run_def split: prod.splits)

text \<open>
  Claim C2. On \<open>sql`SELECT ${sql`x = ${1}`}`\<close> the tree holds one parameter, the value
  1, and \<open>compile\<close> returns no parameter at all: the nested fragment is not traversed,
  it is appended to the text as \<open>[object Object]\<close>.
\<close>

theorem compile_nested_fragment:
  "tree_params outer_fragment = [Num 1]
   \<and> compile dollar outer_fragment = \<lparr>sql = ''SELECT [object Object]'', params = []\<rparr>"
  by (simp add: outer_fragment_def inner_fragment_def compile_def compile_run_def
        createFromTemplateString_def loop_body_def strings_length_def strings_at_def arg_at_def
        push_param_def compile_loop.simps)

section \<open>Objects, statements and the stub driver\<close>

lemmas stub_defs = stub_repo_def stub_db_def stub_state_def

lemmas tag_defs = sql_tag_def strings_length_def strings_at_def sql_arg_at_def
  sql_push_param_def arg_of_option_def SqlQuery_join_def upt_rec

lemmas nl_defs = nl2_def nl3_def nl4_def nl5_def

lemma setProperty_fresh: "k \<notin> fst ` set ps \<Longrightarrow> setProperty ps k v = ps @ [(k, v)]"
  by (induction ps) auto

lemma assign_fold_fresh:
  "distinct (map fst (t @ ps)) \<Longrightarrow>
   foldl (\<lambda>t kv. setProperty t (fst kv) (snd kv)) t ps = t @ ps"
proof (induction ps arbitrary: t)
  case Nil
  then show ?case by simp
next
  case (Cons p ps)
  from Cons.prems have fresh: "fst p \<notin> fst ` set t" by auto
  from Cons.prems have "distinct (map fst ((t @ [p]) @ ps))" by auto
  from Cons.IH [OF this] fresh show ?case
    by (simp add: setProperty_fresh)
qed

text \<open>Assigning a row onto a fresh object gives an object with exactly the row's
  properties (a row, as an object, has each key once).\<close>

lemma Object_assign_row: "distinct (map fst row) \<Longrightarrow> Object_assign [] (Obj row) = row"
  using assign_fold_fresh [of "[]" row] by (simp add: Object_assign_def)

lemma stub_query:
  "query (database (stub_repo sc)) q s = (Inr (stub_rows s), s\<lparr>issued := issued s @ [q]\<rparr>)"
  by (simp add: stub_repo_def stub_db_def)

lemma stub_insertAndGet:
  "insertAndGet (database (stub_repo sc)) q s
     = (Inr (stub_inserted s), s\<lparr>issued := issued s @ [q]\<rparr>)"
  by (simp add: stub_repo_def stub_db_def)

lemma stub_updateAndGet:
  "updateAndGet (database (stub_repo sc)) q s
     = (Inr (stub_updated s), s\<lparr>issued := issued s @ [q]\<rparr>)"
  by (simp add: stub_repo_def stub_db_def)

lemma user7_key: "model_key (stub_repo sc) user7 0 = Num 7"
  by (simp add: model_key_def user7_def row7_def getProperty_def stub_repo_def)

lemma select_query_compile:
  "sql_compile itp fid (select_query this k)
     = \<lparr>sql = nl5 @ ''SELECT *'' @ nl5 @ ''FROM '' @ fid (table this) @ nl5 @ ''WHERE ''
               @ fid (primaryKey this) @ '' = '' @ itp 0 @ '';'' @ nl4,
        params = [k]\<rparr>"
  by (simp add: select_query_def tag_defs sql_compile_def)

lemma delete_query_compile:
  "sql_compile itp fid (delete_query this k)
     = \<lparr>sql = nl3 @ ''DELETE FROM '' @ fid (table this) @ nl3 @ ''WHERE ''
               @ fid (primaryKey this) @ '' = '' @ itp 0 @ '';'' @ nl2,
        params = [k]\<rparr>"
  by (simp add: delete_query_def tag_defs sql_compile_def)

text \<open>\<open>get\<close> and \<open>search\<close> leave the database as their one SELECT leaves it.\<close>

lemma get_issues:
  "fst (snd (get this key opts s h))
     = snd (query (database this) (get_query this key opts) s)"
  by (simp add: get_def createModelFromAttributes_def split: prod.splits sum.splits)

lemma search_issues:
  "fst (snd (search this opts s h))
     = snd (query (database this) (search_query this opts) s)"
  by (simp add: search_def split: prod.splits sum.splits)

text \<open>Nothing that create, update and delete use reads the scope.\<close>

lemma scope_unused:
  "insert_query (this\<lparr>scope := x\<rparr>) = insert_query this"
  "select_query (this\<lparr>scope := x\<rparr>) = select_query this"
  "update_query (this\<lparr>scope := x\<rparr>) = update_query this"
  "delete_query (this\<lparr>scope := x\<rparr>) = delete_query this"
  "model_key (this\<lparr>scope := x\<rparr>) = model_key this"
  "after_insert_message (this\<lparr>scope := x\<rparr>) = after_insert_message this"
  "after_update_message (this\<lparr>scope := x\<rparr>) = after_update_message this"
  "not_found_message (this\<lparr>scope := x\<rparr>) = not_found_message this"
  "too_many_message (this\<lparr>scope := x\<rparr>) = too_many_message this"
  "createModelFromAttributes (this\<lparr>scope := x\<rparr>) = createModelFromAttributes this"
  "database (this\<lparr>scope := x\<rparr>) = database this"
  by (simp_all add: fun_eq_iff insert_query_def select_query_def update_query_def
        delete_query_def model_key_def after_insert_message_def after_update_message_def
        not_found_message_def too_many_message_def createModelFromAttributes_def)

section \<open>The scope\<close>

text \<open>
  Claim C1, as stated, fails: on a repository whose scope is \<open>deleted = false\<close>, the
  DELETE that \<open>delete\<close> gives the database and the UPDATE that \<open>update\<close> gives it are
  filtered on the primary key alone, and the scope occurs nowhere in them.
\<close>

theorem scope_not_in_update_delete:
  "map (sql_compile dollar quoted)
     (issued (fst (snd (delete (stub_repo (Some soft_delete)) 0 (stub_state [] [] None) user7))))
     = [\<lparr>sql = nl3 @ ''DELETE FROM '' @ quoted ''users'' @ nl3 @ ''WHERE '' @ quoted ''id''
               @ '' = $1;'' @ nl2,
         params = [Num 7]\<rparr>]
   \<and> \<not> list_ex (occurs_in soft_delete)
        (issued (fst (snd (delete (stub_repo (Some soft_delete)) 0 (stub_state [] [] None) user7))))
   \<and> map (sql_compile dollar quoted)
     (issued (fst (snd (update (stub_repo (Some soft_delete)) 0 set_name
                          (stub_state [] [] (Some [row7])) user7))))
     = [\<lparr>sql = nl4 @ ''UPDATE '' @ quoted ''users'' @ nl4 @ ''SET '' @ quoted ''name'' @ '' = $1''
               @ nl4 @ ''WHERE '' @ quoted ''id'' @ '' = $2'' @ nl3,
         params = [Str ''Bob'', Num 7]\<rparr>]
   \<and> \<not> list_ex (occurs_in soft_delete)
     (issued (fst (snd (update (stub_repo (Some soft_delete)) 0 set_name
                          (stub_state [] [] (Some [row7])) user7))))"
  by (simp add: delete_def update_def update_rows_def delete_query_def update_query_def
      model_key_def user7_def row7_def set_name_def getProperty_def soft_delete_def
      stub_defs tag_defs nl_defs sql_compile_def dollar_def decimal.simps digit_char_def
      quoted_def)

text \<open>
  Claim C1, amended. On a repository with a scope, \<open>get\<close> gives the database the SELECT
  whose WHERE clause joins the primary-key comparison and the parenthesised scope with
  \<open>AND\<close>, and \<open>search\<close> the SELECT whose WHERE clause joins the parenthesised scope and,
  when given, the parenthesised \<open>where\<close> option. \<open>create\<close>, \<open>update\<close> and \<open>delete\<close>
  do not use the scope: they do the same whatever it is.
\<close>

theorem scope_in_selects:
  assumes "scope this = Some sc"
  shows "sql_parts (get_query this key opts) ! 4 = SqlString (nl3 @ ''WHERE '')
       \<and> sql_parts (get_query this key opts) ! 5
           = SqlNested (SqlQuery_join
               [sql_tag (TemplateStrings [] ['' = '', []])
                  [ArgIdentifier (QueryIdentifier (primaryKey this)), ArgAny key],
                sql_tag (TemplateStrings ''('' ['')'']) [ArgSql sc]]
               (sql_tag (TemplateStrings '' AND '' []) []))
       \<and> fst (snd (get this key opts s h))
           = snd (query (database this) (get_query this key opts) s)
       \<and> sql_parts (search_query this sopts) ! 7
           = SqlNested (sql_tag (TemplateStrings ''WHERE '' [[]])
               [ArgSql (SqlQuery_join
                  (sql_tag (TemplateStrings ''('' ['')'']) [ArgSql sc]
                   # (case opt_where sopts of
                        Some w \<Rightarrow> [sql_tag (TemplateStrings ''('' ['')'']) [ArgSql w]]
                      | None \<Rightarrow> []))
                  (sql_tag (TemplateStrings '' AND '' []) []))])
       \<and> fst (snd (search this sopts s h))
           = snd (query (database this) (search_query this sopts) s)
       \<and> create (this\<lparr>scope := x\<rparr>) attributes s h = create this attributes s h
       \<and> update (this\<lparr>scope := x\<rparr>) m attributes s h = update this m attributes s h
       \<and> delete (this\<lparr>scope := x\<rparr>) m s h = delete this m s h"
proof -
  have g4: "sql_parts (get_query this key opts) ! 4 = SqlString (nl3 @ ''WHERE '')"
    by (simp add: get_query_def Let_def tag_defs)
  have g5: "sql_parts (get_query this key opts) ! 5
           = SqlNested (SqlQuery_join
               [sql_tag (TemplateStrings [] ['' = '', []])
                  [ArgIdentifier (QueryIdentifier (primaryKey this)), ArgAny key],
                sql_tag (TemplateStrings ''('' ['')'']) [ArgSql sc]]
               (sql_tag (TemplateStrings '' AND '' []) []))"
    using assms by (simp add: get_query_def get_filters_def Let_def tag_defs)
  have s7: "sql_parts (search_query this sopts) ! 7
           = SqlNested (sql_tag (TemplateStrings ''WHERE '' [[]])
               [ArgSql (SqlQuery_join
                  (sql_tag (TemplateStrings ''('' ['')'']) [ArgSql sc]
                   # (case opt_where sopts of
                        Some w \<Rightarrow> [sql_tag (TemplateStrings ''('' ['')'']) [ArgSql w]]
                      | None \<Rightarrow> []))
                  (sql_tag (TemplateStrings '' AND '' []) []))])"
    using assms
    by (simp add: search_query_def whereClause_def search_filters_def Let_def tag_defs)
  have c: "create (this\<lparr>scope := x\<rparr>) attributes s h = create this attributes s h"
    unfolding create_def scope_unused by simp
  have u: "update (this\<lparr>scope := x\<rparr>) m attributes s h = update this m attributes s h"
    unfolding update_def update_rows_def scope_unused by simp
  have d: "delete (this\<lparr>scope := x\<rparr>) m s h = delete this m s h"
    unfolding delete_def scope_unused by simp
  from g4 g5 s7 c u d show ?thesis by (simp add: get_issues search_issues)
qed

theorem scope_in_selects_witness:
  "sql_compile dollar quoted (get_query (stub_repo (Some soft_delete)) (Num 7) no_options)
     = \<lparr>sql = nl3 @ ''SELECT *'' @ nl3 @ ''FROM '' @ quoted ''users'' @ nl3 @ ''WHERE ''
              @ quoted ''id'' @ '' = $1 AND (deleted = $2)'' @ nl3 @ '';'' @ nl2,
        params = [Num 7, Bool False]\<rparr>
   \<and> sql_compile dollar quoted (search_query (stub_repo (Some soft_delete)) no_search_options)
     = \<lparr>sql = nl3 @ ''SELECT *'' @ nl3 @ ''FROM '' @ quoted ''users'' @ '' '' @ nl3
              @ ''WHERE (deleted = $1)'' @ nl3 @ nl3 @ nl2,
        params = [Bool False]\<rparr>
   \<and> sql_parts (get_query (stub_repo (Some soft_delete)) (Num 7) no_options) ! 5
       = SqlNested (SqlQuery_join
               [sql_tag (TemplateStrings [] ['' = '', []])
                  [ArgIdentifier (QueryIdentifier ''id''), ArgAny (Num 7)],
                sql_tag (TemplateStrings ''('' ['')'']) [ArgSql soft_delete]]
               (sql_tag (TemplateStrings '' AND '' []) []))
   \<and> delete (stub_repo (Some soft_delete)) 0 (stub_state [] [] None) user7
       = delete (stub_repo None) 0 (stub_state [] [] None) user7"
proof -
  have sc: "scope (stub_repo (Some soft_delete)) = Some soft_delete"
    by (simp add: stub_repo_def)
  have pk: "primaryKey (stub_repo (Some soft_delete)) = ''id''"
    by (simp add: stub_repo_def)
  have r: "(stub_repo (Some soft_delete))\<lparr>scope := None\<rparr> = stub_repo None"
    by (simp add: stub_repo_def)
  have g: "sql_compile dollar quoted (get_query (stub_repo (Some soft_delete)) (Num 7) no_options)
     = \<lparr>sql = nl3 @ ''SELECT *'' @ nl3 @ ''FROM '' @ quoted ''users'' @ nl3 @ ''WHERE ''
              @ quoted ''id'' @ '' = $1 AND (deleted = $2)'' @ nl3 @ '';'' @ nl2,
        params = [Num 7, Bool False]\<rparr>"
    by (simp add: get_query_def get_filters_def no_options_def soft_delete_def stub_defs
          tag_defs nl_defs sql_compile_def dollar_def decimal.simps digit_char_def quoted_def)
  have se: "sql_compile dollar quoted
              (search_query (stub_repo (Some soft_delete)) no_search_options)
     = \<lparr>sql = nl3 @ ''SELECT *'' @ nl3 @ ''FROM '' @ quoted ''users'' @ '' '' @ nl3
              @ ''WHERE (deleted = $1)'' @ nl3 @ nl3 @ nl2,
        params = [Bool False]\<rparr>"
    by (simp add: search_query_def no_search_options_def soft_delete_def stub_defs
          fromClause_def selectClause_def postfixClause_def whereClause_def search_filters_def
          groupByClause_def orderByClause_def
          tag_defs nl_defs sql_compile_def dollar_def decimal.simps digit_char_def quoted_def)
  from scope_in_selects [where this = "stub_repo (Some soft_delete)" and sc = soft_delete
      and key = "Num 7" and opts = no_options and x = None and m = 0
      and s = "stub_state [] [] None" and h = user7, OF sc]
  show ?thesis
    by (simp add: g se pk r)
qed

section \<open>search\<close>

text \<open>
  Claim C3. With a select list given and \<open>from\<close> left out, the FROM clause of \<open>search\<close>
  is not the table identifier: it is the template \<open>sql`${from}`\<close> on \<open>undefined\<close>, a
  bound parameter, so the statement reads \<open>FROM $1\<close> with the parameter \<open>undefined\<close>.
\<close>

theorem search_from_tests_select:
  "fromClause (stub_repo None) select_id
     = SqlQuery [SqlString [], SqlParam (QueryParam Undefined), SqlString []]
   \<and> fromClause (stub_repo None) select_id
       \<noteq> sql_tag (TemplateStrings [] [[]]) [ArgIdentifier (QueryIdentifier ''users'')]
   \<and> sql_compile dollar quoted (search_query (stub_repo None) select_id)
     = \<lparr>sql = nl3 @ ''SELECT id'' @ nl3 @ ''FROM $1 '' @ nl3 @ nl3 @ nl3 @ nl2,
        params = [Undefined]\<rparr>"
  by (simp add: fromClause_def search_query_def select_id_def stub_defs tag_defs nl_defs
      selectClause_def postfixClause_def whereClause_def search_filters_def groupByClause_def
      orderByClause_def sql_compile_def dollar_def decimal.simps digit_char_def)

section \<open>get\<close>

text \<open>
  Claim C4. When the database answers the SELECT of \<open>get\<close> with exactly one row, \<open>get\<close>
  returns a new model whose properties are that row's (a row, as an object, has each
  column once); with no row it raises NotFound; with more than one row it raises
  TooManyResults.
\<close>

theorem get_zero_one_many:
  assumes "query (database this) (get_query this key opts) s = (Inr rows, s1)"
  shows "(rows = [] \<longrightarrow>
            get this key opts s h = (Inl (NotFoundError (not_found_message this key)), s1, h))
       \<and> (\<forall>row. rows = [row] \<longrightarrow> distinct (map fst row) \<longrightarrow>
            get this key opts s h
              = (Inr (length h), s1, h @ [\<lparr>prototype = model this, properties = row\<rparr>]))
       \<and> (1 < length rows \<longrightarrow>
            get this key opts s h
              = (Inl (TooManyResultsError (too_many_message this key)), s1, h))"
  using assms
  by (auto simp add: get_def createModelFromAttributes_def Object_assign_row)

theorem get_zero_one_many_witness:
  "get (stub_repo None) (Num 7) no_options (stub_state [] [] None) []
     = (Inl (NotFoundError ''Object not found in table users for id = 7''),
        \<lparr>issued = [get_query (stub_repo None) (Num 7) no_options], stub_rows = [],
           stub_inserted = [], stub_updated = None\<rparr>, [])
   \<and> get (stub_repo None) (Num 7) no_options (stub_state [row7] [] None) []
     = (Inr 0,
        \<lparr>issued = [get_query (stub_repo None) (Num 7) no_options], stub_rows = [row7],
           stub_inserted = [], stub_updated = None\<rparr>,
        [\<lparr>prototype = ''User'', properties = row7\<rparr>])
   \<and> get (stub_repo None) (Num 7) no_options (stub_state [row7, row7] [] None) []
     = (Inl (TooManyResultsError ''Multiple objects found in table users for id = 7''),
        \<lparr>issued = [get_query (stub_repo None) (Num 7) no_options], stub_rows = [row7, row7],
           stub_inserted = [], stub_updated = None\<rparr>, [])"
proof -
  have q: "\<And>rs. query (database (stub_repo None))
                  (get_query (stub_repo None) (Num 7) no_options) (stub_state rs [] None)
            = (Inr rs,
               \<lparr>issued = [get_query (stub_repo None) (Num 7) no_options], stub_rows = rs,
                  stub_inserted = [], stub_updated = None\<rparr>)"
    by (simp add: stub_repo_def stub_db_def stub_state_def)
  have d: "distinct (map fst row7)" by (simp add: row7_def)
  have m1: "not_found_message (stub_repo None) (Num 7)
              = ''Object not found in table users for id = 7''"
    by (simp add: not_found_message_def stub_repo_def decimal.simps digit_char_def)
  have m2: "too_many_message (stub_repo None) (Num 7)
              = ''Multiple objects found in table users for id = 7''"
    by (simp add: too_many_message_def stub_repo_def decimal.simps digit_char_def)
  have m: "model (stub_repo None) = ''User''" by (simp add: stub_repo_def)
  show ?thesis
    using get_zero_one_many [OF q [of "[]"], of "[]"]
      get_zero_one_many [OF q [of "[row7]"], of "[]"]
      get_zero_one_many [OF q [of "[row7, row7]"], of "[]"] d
    by (simp add: m1 m2 m)
qed

section \<open>create\<close>

text \<open>
  Claim C6. When \<open>insertAndGet\<close> resolves to a string or a number first, \<open>create\<close> runs
  the SELECT filtered on the primary key equal to that value; with one row back it
  returns a new model with that row's properties, with none it raises NotFound.
\<close>

theorem create_scalar_refetch:
  assumes "insertAndGet (database this) (insert_query this attributes) s = (Inr arr, sa)"
    and "is_string_or_number (first_element arr)"
    and "query (database this) (select_query this (first_element arr)) sa = (Inr rows, sb)"
  shows "(rows = [] \<longrightarrow>
            create this attributes s h
              = (Inl (NotFoundError (after_insert_message this (first_element arr))), sb, h))
       \<and> (\<forall>row. rows = [row] \<longrightarrow> distinct (map fst row) \<longrightarrow>
            create this attributes s h
              = (Inr (length h), sb, h @ [\<lparr>prototype = model this, properties = row\<rparr>]))
       \<and> sql_compile itp fid (select_query this (first_element arr))
           = \<lparr>sql = nl5 @ ''SELECT *'' @ nl5 @ ''FROM '' @ fid (table this) @ nl5 @ ''WHERE ''
                     @ fid (primaryKey this) @ '' = '' @ itp 0 @ '';'' @ nl4,
              params = [first_element arr]\<rparr>"
  using assms
  by (auto simp add: create_def createModelFromAttributes_def Object_assign_row
        select_query_compile)

theorem create_scalar_refetch_witness:
  "create (stub_repo None) row7 (stub_state [] [Num 7] None) []
     = (Inl (NotFoundError ''Object not found in table users after insert (got id = 7)''),
        \<lparr>issued = [insert_query (stub_repo None) row7, select_query (stub_repo None) (Num 7)],
           stub_rows = [], stub_inserted = [Num 7], stub_updated = None\<rparr>, [])
   \<and> create (stub_repo None) row7 (stub_state [row7] [Num 7] None) []
     = (Inr 0,
        \<lparr>issued = [insert_query (stub_repo None) row7, select_query (stub_repo None) (Num 7)],
           stub_rows = [row7], stub_inserted = [Num 7], stub_updated = None\<rparr>,
        [\<lparr>prototype = ''User'', properties = row7\<rparr>])"
proof -
  let ?i = "insert_query (stub_repo None) row7"
  let ?q = "select_query (stub_repo None) (Num 7)"
  have i: "\<And>rs. insertAndGet (database (stub_repo None)) ?i (stub_state rs [Num 7] None)
             = (Inr [Num 7],
                \<lparr>issued = [?i], stub_rows = rs, stub_inserted = [Num 7], stub_updated = None\<rparr>)"
    by (simp add: stub_insertAndGet stub_state_def)
  have f: "is_string_or_number (first_element [Num 7])"
    by (simp add: first_element_def)
  have q: "\<And>rs. query (database (stub_repo None))
              (select_query (stub_repo None) (first_element [Num 7]))
              \<lparr>issued = [?i], stub_rows = rs, stub_inserted = [Num 7], stub_updated = None\<rparr>
             = (Inr rs,
                \<lparr>issued = [?i, ?q], stub_rows = rs, stub_inserted = [Num 7],
                   stub_updated = None\<rparr>)"
    by (simp add: stub_query first_element_def)
  have m: "after_insert_message (stub_repo None) (first_element [Num 7])
             = ''Object not found in table users after insert (got id = 7)''"
    by (simp add: after_insert_message_def first_element_def stub_repo_def decimal.simps
          digit_char_def)
  have d: "distinct (map fst row7)" by (simp add: row7_def)
  have p: "model (stub_repo None) = ''User''" by (simp add: stub_repo_def)
  show ?thesis
    using create_scalar_refetch [OF i [of "[]"] f q [of "[]"], of "[]"]
      create_scalar_refetch [OF i [of "[row7]"] f q [of "[row7]"], of "[]"] d
    by (simp add: m p)
qed

text \<open>
  In the second implementation, a first element that is neither a string nor a number
  and is falsy (\<open>undefined\<close>, \<open>null\<close>) makes \<open>create\<close> map the submitted attributes.
\<close>

lemma create_falls_back:
  assumes "insertAndGet (database this) (insert_query this attributes) s = (Inr arr, sa)"
    and "\<not> is_string_or_number (first_element arr)"
    and "\<not> truthy (first_element arr)"
    and "distinct (map fst attributes)"
  shows "create this attributes s h
           = (Inr (length h), sa, h @ [\<lparr>prototype = model this, properties = attributes\<rparr>])"
  using assms by (simp add: create_def createModelFromAttributes_def Object_assign_row)

text \<open>
  Claim C7. When \<open>insertAndGet\<close> resolves to an empty array, the first implementation
  returns a model with no property at all, where the second returns the submitted
  attributes.
\<close>

theorem first_create_no_fallback:
  "first_create (stub_repo None) row7 (stub_state [] [] None) []
     = (Inr 0,
        \<lparr>issued = [insert_query (stub_repo None) row7], stub_rows = [], stub_inserted = [],
           stub_updated = None\<rparr>,
        [\<lparr>prototype = ''User'', properties = []\<rparr>])
   \<and> create (stub_repo None) row7 (stub_state [] [] None) []
     = (Inr 0,
        \<lparr>issued = [insert_query (stub_repo None) row7], stub_rows = [], stub_inserted = [],
           stub_updated = None\<rparr>,
        [\<lparr>prototype = ''User'', properties = row7\<rparr>])"
  by (simp add: first_create_def create_def stub_insertAndGet stub_state_def first_element_def
        createModelFromAttributes_def Object_assign_def row7_def)
     (simp add: stub_repo_def)

section \<open>update\<close>

text \<open>
  Claim C5. When \<open>updateAndGet\<close> resolves to \<open>null\<close>, \<open>update\<close> runs the SELECT by
  primary key and raises NotFound when it gives no row, and succeeds otherwise. When
  \<open>updateAndGet\<close> resolves to rows, \<open>update\<close> raises NotFound for no row,
  TooManyResults for more than one, and succeeds for exactly one.
\<close>

theorem update_response_shapes:
  "(updateAndGet (database this) (update_query this (model_key this h m) attributes) s
       = (Inr None, sa)
    \<longrightarrow> query (database this) (select_query this (model_key this h m)) sa = (Inr rows, sb)
    \<longrightarrow> (rows = [] \<longrightarrow>
           update this m attributes s h
             = (Inl (NotFoundError (after_update_message this (model_key this h m))), sb, h))
        \<and> (rows \<noteq> [] \<longrightarrow>
           update this m attributes s h = (Inr m, sb, assign_onto h m (rows ! 0))))
   \<and> (updateAndGet (database this) (update_query this (model_key this h m) attributes) s
       = (Inr (Some direct), sd)
    \<longrightarrow> (direct = [] \<longrightarrow>
           update this m attributes s h
             = (Inl (NotFoundError (not_found_message this (model_key this h m))), sd, h))
        \<and> (1 < length direct \<longrightarrow>
           update this m attributes s h
             = (Inl (TooManyResultsError (too_many_message this (model_key this h m))), sd, h))
        \<and> (length direct = 1 \<longrightarrow>
           update this m attributes s h = (Inr m, sd, assign_onto h m (direct ! 0))))
   \<and> sql_compile itp fid (select_query this (model_key this h m))
       = \<lparr>sql = nl5 @ ''SELECT *'' @ nl5 @ ''FROM '' @ fid (table this) @ nl5 @ ''WHERE ''
                 @ fid (primaryKey this) @ '' = '' @ itp 0 @ '';'' @ nl4,
          params = [model_key this h m]\<rparr>"
  by (auto simp add: update_def update_rows_def select_query_compile)

theorem update_response_shapes_witness:
  "update (stub_repo None) 0 set_name (stub_state [] [] None) user7
     = (Inl (NotFoundError ''Object not found in table users after update (got id = 7)''),
        \<lparr>issued = [update_query (stub_repo None) (Num 7) set_name,
                     select_query (stub_repo None) (Num 7)],
           stub_rows = [], stub_inserted = [], stub_updated = None\<rparr>, user7)
   \<and> update (stub_repo None) 0 set_name (stub_state [rowB] [] None) user7
     = (Inr 0,
        \<lparr>issued = [update_query (stub_repo None) (Num 7) set_name,
                     select_query (stub_repo None) (Num 7)],
           stub_rows = [rowB], stub_inserted = [], stub_updated = None\<rparr>,
        [\<lparr>prototype = ''User'',
           properties = [(''id'', Num 7), (''name'', Str ''Bob''), (''age'', Num 30)]\<rparr>])
   \<and> update (stub_repo None) 0 set_name (stub_state [] [] (Some [])) user7
     = (Inl (NotFoundError ''Object not found in table users for id = 7''),
        \<lparr>issued = [update_query (stub_repo None) (Num 7) set_name],
           stub_rows = [], stub_inserted = [], stub_updated = Some []\<rparr>, user7)
   \<and> update (stub_repo None) 0 set_name (stub_state [] [] (Some [rowB, rowB])) user7
     = (Inl (TooManyResultsError ''Multiple objects found in table users for id = 7''),
        \<lparr>issued = [update_query (stub_repo None) (Num 7) set_name],
           stub_rows = [], stub_inserted = [], stub_updated = Some [rowB, rowB]\<rparr>, user7)
   \<and> update (stub_repo None) 0 set_name (stub_state [] [] (Some [rowB])) user7
     = (Inr 0,
        \<lparr>issued = [update_query (stub_repo None) (Num 7) set_name],
           stub_rows = [], stub_inserted = [], stub_updated = Some [rowB]\<rparr>,
        [\<lparr>prototype = ''User'',
           properties = [(''id'', Num 7), (''name'', Str ''Bob''), (''age'', Num 30)]\<rparr>])"
proof -
  let ?u = "update_query (stub_repo None) (Num 7) set_name"
  let ?q = "select_query (stub_repo None) (Num 7)"
  have m1: "after_update_message (stub_repo None) (Num 7)
              = ''Object not found in table users after update (got id = 7)''"
    by (simp add: after_update_message_def stub_repo_def decimal.simps digit_char_def)
  have m2: "not_found_message (stub_repo None) (Num 7)
              = ''Object not found in table users for id = 7''"
    by (simp add: not_found_message_def stub_repo_def decimal.simps digit_char_def)
  have m3: "too_many_message (stub_repo None) (Num 7)
              = ''Multiple objects found in table users for id = 7''"
    by (simp add: too_many_message_def stub_repo_def decimal.simps digit_char_def)
  have a: "assign_onto user7 0 rowB
             = [\<lparr>prototype = ''User'',
                  properties = [(''id'', Num 7), (''name'', Str ''Bob''), (''age'', Num 30)]\<rparr>]"
    by (simp add: assign_onto_def user7_def row7_def rowB_def Object_assign_def)
  have w1: "update (stub_repo None) 0 set_name (stub_state [] [] None) user7
     = (Inl (NotFoundError ''Object not found in table users after update (got id = 7)''),
        \<lparr>issued = [?u, ?q], stub_rows = [], stub_inserted = [], stub_updated = None\<rparr>, user7)"
    using update_response_shapes [where this = "stub_repo None" and h = user7 and m = 0
        and attributes = set_name and s = "stub_state [] [] None"
        and sa = "\<lparr>issued = [?u], stub_rows = [], stub_inserted = [], stub_updated = None\<rparr>"
        and rows = "[]"
        and sb = "\<lparr>issued = [?u, ?q], stub_rows = [], stub_inserted = [], stub_updated = None\<rparr>"]
    by (simp add: user7_key stub_updateAndGet stub_query stub_state_def m1)
  have w2: "update (stub_repo None) 0 set_name (stub_state [rowB] [] None) user7
     = (Inr 0,
        \<lparr>issued = [?u, ?q], stub_rows = [rowB], stub_inserted = [], stub_updated = None\<rparr>,
        [\<lparr>prototype = ''User'',
           properties = [(''id'', Num 7), (''name'', Str ''Bob''), (''age'', Num 30)]\<rparr>])"
    using update_response_shapes [where this = "stub_repo None" and h = user7 and m = 0
        and attributes = set_name and s = "stub_state [rowB] [] None"
        and sa = "\<lparr>issued = [?u], stub_rows = [rowB], stub_inserted = [], stub_updated = None\<rparr>"
        and rows = "[rowB]"
        and sb = "\<lparr>issued = [?u, ?q], stub_rows = [rowB], stub_inserted = [], stub_updated = None\<rparr>"]
    by (simp add: user7_key stub_updateAndGet stub_query stub_state_def a)
  have w3: "update (stub_repo None) 0 set_name (stub_state [] [] (Some [])) user7
     = (Inl (NotFoundError ''Object not found in table users for id = 7''),
        \<lparr>issued = [?u], stub_rows = [], stub_inserted = [], stub_updated = Some []\<rparr>, user7)"
    using update_response_shapes [where this = "stub_repo None" and h = user7 and m = 0
        and attributes = set_name and s = "stub_state [] [] (Some [])"
        and sd = "\<lparr>issued = [?u], stub_rows = [], stub_inserted = [], stub_updated = Some []\<rparr>"
        and direct = "[]"]
    by (simp add: user7_key stub_updateAndGet stub_state_def m2)
  have w4: "update (stub_repo None) 0 set_name (stub_state [] [] (Some [rowB, rowB])) user7
     = (Inl (TooManyResultsError ''Multiple objects found in table users for id = 7''),
        \<lparr>issued = [?u], stub_rows = [], stub_inserted = [],
           stub_updated = Some [rowB, rowB]\<rparr>, user7)"
    using update_response_shapes [where this = "stub_repo None" and h = user7 and m = 0
        and attributes = set_name and s = "stub_state [] [] (Some [rowB, rowB])"
        and sd = "\<lparr>issued = [?u], stub_rows = [], stub_inserted = [],
                      stub_updated = Some [rowB, rowB]\<rparr>"
        and direct = "[rowB, rowB]"]
    by (simp add: user7_key stub_updateAndGet stub_state_def m3)
  have w5: "update (stub_repo None) 0 set_name (stub_state [] [] (Some [rowB])) user7
     = (Inr 0,
        \<lparr>issued = [?u], stub_rows = [], stub_inserted = [], stub_updated = Some [rowB]\<rparr>,
        [\<lparr>prototype = ''User'',
           properties = [(''id'', Num 7), (''name'', Str ''Bob''), (''age'', Num 30)]\<rparr>])"
    using update_response_shapes [where this = "stub_repo None" and h = user7 and m = 0
        and attributes = set_name and s = "stub_state [] [] (Some [rowB])"
        and sd = "\<lparr>issued = [?u], stub_rows = [], stub_inserted = [],
                      stub_updated = Some [rowB]\<rparr>"
        and direct = "[rowB]"]
    by (simp add: user7_key stub_updateAndGet stub_state_def a)
  from w1 w2 w3 w4 w5 show ?thesis by simp
qed

text \<open>
  Claim C10. A successful \<open>update\<close> of the second implementation returns the reference
  it was given, allocates nothing, and leaves the row's columns assigned onto that very
  object. The first implementation returns a reference to a new object, a copy of the
  model with the row assigned onto it, and leaves the object it was given as it was.
\<close>

theorem update_in_place:
  assumes "update_rows this m attributes s h = (Inr rows, sa)" and "m < length h"
  shows "update this m attributes s h
           = (Inr m, sa,
              h[m := (h ! m)\<lparr>properties := Object_assign (properties (h ! m)) (Obj (rows ! 0))\<rparr>])
       \<and> length (snd (snd (update this m attributes s h))) = length h
       \<and> properties (snd (snd (update this m attributes s h)) ! m)
           = Object_assign (properties (h ! m)) (Obj (rows ! 0))
       \<and> first_update this m attributes s h
           = (Inr (length h), sa,
              h @ [\<lparr>prototype = model this,
                     properties = Object_assign (Object_assign [] (Obj (properties (h ! m))))
                                    (Obj (rows ! 0))\<rparr>])
       \<and> length h \<noteq> m
       \<and> snd (snd (first_update this m attributes s h)) ! m = h ! m"
  using assms
  by (simp add: update_def first_update_def assign_onto_def createModelFromAttributes_def
        nth_append)

theorem update_in_place_witness:
  "update (stub_repo None) 0 set_name (stub_state [] [] (Some [rowB])) user7
     = (Inr 0,
        \<lparr>issued = [update_query (stub_repo None) (Num 7) set_name],
           stub_rows = [], stub_inserted = [], stub_updated = Some [rowB]\<rparr>,
        [\<lparr>prototype = ''User'',
           properties = [(''id'', Num 7), (''name'', Str ''Bob''), (''age'', Num 30)]\<rparr>])
   \<and> first_update (stub_repo None) 0 set_name (stub_state [] [] (Some [rowB])) user7
     = (Inr 1,
        \<lparr>issued = [update_query (stub_repo None) (Num 7) set_name],
           stub_rows = [], stub_inserted = [], stub_updated = Some [rowB]\<rparr>,
        [\<lparr>prototype = ''User'', properties = [(''id'', Num 7), (''name'', Str ''Ann'')]\<rparr>,
         \<lparr>prototype = ''User'',
           properties = [(''id'', Num 7), (''name'', Str ''Bob''), (''age'', Num 30)]\<rparr>])"
proof -
  have r: "update_rows (stub_repo None) 0 set_name (stub_state [] [] (Some [rowB])) user7
             = (Inr [rowB],
                \<lparr>issued = [update_query (stub_repo None) (Num 7) set_name],
                   stub_rows = [], stub_inserted = [], stub_updated = Some [rowB]\<rparr>)"
    by (simp add: update_rows_def user7_key stub_updateAndGet stub_state_def)
  have l: "0 < length user7" by (simp add: user7_def)
  have p: "model (stub_repo None) = ''User''" by (simp add: stub_repo_def)
  show ?thesis
    using update_in_place [OF r l]
    by (simp add: p user7_def row7_def rowB_def Object_assign_def)
qed

section \<open>delete\<close>

text \<open>
  Claim C8. \<open>delete\<close> never raises NotFound or TooManyResults. It gives the database one
  statement, the DELETE filtered on the primary key of the model, and nothing else: the
  database is left as that statement leaves it and the heap is untouched. Whatever rows
  the statement resolves to, none included, \<open>delete\<close> completes without error.
\<close>

theorem delete_no_check:
  "(\<forall>msg. fst (delete this m s h) \<noteq> Inl (NotFoundError msg)
         \<and> fst (delete this m s h) \<noteq> Inl (TooManyResultsError msg))
   \<and> snd (delete this m s h)
       = (snd (query (database this) (delete_query this (model_key this h m)) s), h)
   \<and> (\<forall>rows s1. query (database this) (delete_query this (model_key this h m)) s = (Inr rows, s1)
         \<longrightarrow> delete this m s h = (Inr (), s1, h))
   \<and> sql_compile itp fid (delete_query this (model_key this h m))
       = \<lparr>sql = nl3 @ ''DELETE FROM '' @ fid (table this) @ nl3 @ ''WHERE ''
                 @ fid (primaryKey this) @ '' = '' @ itp 0 @ '';'' @ nl2,
          params = [model_key this h m]\<rparr>"
  by (auto simp add: delete_def delete_query_compile split: prod.splits sum.splits)

theorem delete_no_check_witness:
  "delete (stub_repo None) 0 (stub_state [] [] None) user7
     = (Inr (),
        \<lparr>issued = [delete_query (stub_repo None) (Num 7)], stub_rows = [],
           stub_inserted = [], stub_updated = None\<rparr>, user7)"
proof -
  have k: "model_key (stub_repo None) user7 0 = Num 7"
    by (simp add: model_key_def user7_def row7_def getProperty_def stub_repo_def)
  have q: "query (database (stub_repo None))
             (delete_query (stub_repo None) (model_key (stub_repo None) user7 0))
             (stub_state [] [] None)
            = (Inr [],
               \<lparr>issued = [delete_query (stub_repo None) (Num 7)], stub_rows = [],
                  stub_inserted = [], stub_updated = None\<rparr>)"
    by (simp add: k) (simp add: stub_repo_def stub_db_def stub_state_def)
  from delete_no_check [of "stub_repo None" 0 "stub_state [] [] None" user7] q
  show ?thesis by blast
qed

end
